theory Spec2Isabelle
  imports Main
begin

section \<open>Python values, strings and dictionaries\<close>

text \<open>
  The module \<^verbatim>\<open>src/rag/rag_ingestion.py\<close> works on Python strings and on
  dictionaries with string keys. A string is a \<open>string\<close> (one \<open>char\<close> per code point,
  so the code points below 256), a dictionary is a map from keys to values, and the values
  that the module stores in or reads from a dictionary are \<open>None\<close>, booleans, integers
  and strings.
\<close>

datatype pyval = PNone | PBool bool | PInt int | PStr string

type_synonym pydict = "string \<rightharpoonup> pyval"

text \<open>Truth value of an object, as \<^verbatim>\<open>if x:\<close> tests it.\<close>

fun truthy :: "pyval \<Rightarrow> bool" where
  "truthy PNone = False"
| "truthy (PBool b) = b"
| "truthy (PInt i) = (i \<noteq> 0)"
| "truthy (PStr s) = (s \<noteq> [])"

text \<open>
  Python's \<^verbatim>\<open>==\<close> on these values, which is also the equality of dictionary keys:
  \<^verbatim>\<open>True == 1\<close> and \<^verbatim>\<open>False == 0\<close> hold, a string equals only the same string.
\<close>

fun py_eq :: "pyval \<Rightarrow> pyval \<Rightarrow> bool" where
  "py_eq (PBool a) (PInt i) = ((if a then 1 else 0) = i)"
| "py_eq (PInt i) (PBool a) = ((if a then 1 else 0) = i)"
| "py_eq a b = (a = b)"

text \<open>
  \<^verbatim>\<open>str.isspace\<close> on the code points below 256: TAB, LF, VT, FF, CR, the four separators
  FS, GS, RS, US, the space, NEL and the no-break space.
\<close>

definition whitespace :: "char list" where
  "whitespace = [CHR 0x09, CHR 0x0A, CHR 0x0B, CHR 0x0C, CHR 0x0D, CHR 0x1C, CHR 0x1D,
                 CHR 0x1E, CHR 0x1F, CHR 0x20, CHR 0x85, CHR 0xA0]"

definition isspace :: "char \<Rightarrow> bool" where
  "isspace c = (c \<in> set whitespace)"

text \<open>\<^verbatim>\<open>s.strip()\<close>: leading and trailing whitespace removed.\<close>

definition strip :: "string \<Rightarrow> string" where
  "strip s = rev (dropWhile isspace (rev (dropWhile isspace s)))"

text \<open>\<^verbatim>\<open>str(n)\<close> for a length \<open>n\<close>, as the f-strings of the messages format it.\<close>

definition digit :: "nat \<Rightarrow> char" where
  "digit d = char_of (48 + d)"

fun str_nat :: "nat \<Rightarrow> string" where
  "str_nat n = (if n < 10 then [digit n] else str_nat (n div 10) @ [digit (n mod 10)])"

declare str_nat.simps [simp del]

section \<open>Documents and the external services\<close>

text \<open>A langchain \<^verbatim>\<open>Document(page_content=..., metadata=...)\<close>.\<close>

record document =
  page_content :: string
  metadata :: pydict

text \<open>The fields of a \<^verbatim>\<open>RAGIngestion\<close> object that its methods read.\<close>

record RAGIngestion =
  rag_dir :: string
  collection_name :: string

text \<open>
  The methods call four services that are not code of the module: the clock, the text
  splitter, and the Chroma vector store for writing and for retrieval. They are parameters
  of the model, over a state \<open>'w\<close> of the world outside the process; nothing is assumed of
  them. An exception raised by a service is \<open>Inl\<close> (or \<open>Some\<close>) of its message
  \<^verbatim>\<open>str(e)\<close>.

  \<^item> \<open>datetime_now_isoformat w\<close> is \<^verbatim>\<open>datetime.now().isoformat()\<close>: the reading and the
    world after it.
  \<^item> \<open>split_text chunk_size chunk_overlap s\<close> is
    \<^verbatim>\<open>RecursiveCharacterTextSplitter(chunk_size=..., chunk_overlap=..., length_function=len,
    separators=[...]).split_text(s)\<close>, the constructor and the call together.
  \<^item> \<open>add_documents w dir coll docs\<close> is \<^verbatim>\<open>Chroma(persist_directory=dir,
    embedding_function=..., collection_name=coll).add_documents(docs)\<close>: the exception if one
    is raised by either call, and the world it leaves.
  \<^item> \<open>retriever_invoke w dir coll k q\<close> is \<^verbatim>\<open>Chroma(...).as_retriever(search_kwargs={"k":
    k}).invoke(q)\<close>.
\<close>

record 'w externals =
  datetime_now_isoformat :: "'w \<Rightarrow> string \<times> 'w"
  split_text :: "int \<Rightarrow> int \<Rightarrow> string \<Rightarrow> string + string list"
  add_documents :: "'w \<Rightarrow> string \<Rightarrow> string \<Rightarrow> document list \<Rightarrow> string option \<times> 'w"
  retriever_invoke :: "'w \<Rightarrow> string \<Rightarrow> string \<Rightarrow> nat \<Rightarrow> string \<Rightarrow> string + document list"

section \<open>RAGIngestion.add_report\<close>

text \<open>The dictionary returned when the content is rejected (lines 75 to 80).\<close>

definition too_short_result :: "string \<Rightarrow> string \<Rightarrow> pydict" where
  "too_short_result report_content topic =
     [''success'' \<mapsto> PBool False,
      ''error'' \<mapsto> PStr ''Report content is too short or empty (minimum 100 characters required)'',
      ''topic'' \<mapsto> PStr topic,
      ''message'' \<mapsto> PStr (''Skipped RAG ingestion: report too short ('' @
                               str_nat (length report_content) @ '' chars)'')]"

text \<open>The dictionary returned when no chunk is left (lines 109 to 114).\<close>

definition no_chunks_result :: "string \<Rightarrow> pydict" where
  "no_chunks_result topic =
     [''success'' \<mapsto> PBool False,
      ''error'' \<mapsto> PStr ''No valid text chunks could be generated from report'',
      ''topic'' \<mapsto> PStr topic,
      ''message'' \<mapsto> PStr ''Report could not be split into valid chunks'']"

text \<open>The dictionary returned by the exception handler (lines 153 to 158).\<close>

definition exception_result :: "string \<Rightarrow> string \<Rightarrow> pydict" where
  "exception_result e topic =
     [''success'' \<mapsto> PBool False,
      ''error'' \<mapsto> PStr e,
      ''topic'' \<mapsto> PStr topic,
      ''message'' \<mapsto> PStr (''Failed to add report: '' @ e)]"

text \<open>The dictionary returned after the write (lines 141 to 147).\<close>

definition success_result :: "RAGIngestion \<Rightarrow> nat \<Rightarrow> string \<Rightarrow> pydict" where
  "success_result self n topic =
     [''success'' \<mapsto> PBool True,
      ''chunks_added'' \<mapsto> PInt (int n),
      ''topic'' \<mapsto> PStr topic,
      ''collection'' \<mapsto> PStr (collection_name self),
      ''message'' \<mapsto> PStr (''Added '' @ str_nat n @ '' chunks to knowledge base'')]"

text \<open>
  Lines 82 to 91: the base metadata, then \<^verbatim>\<open>doc_metadata.update(metadata)\<close> when the
  caller's dictionary is given and not empty. Updating with an empty dictionary changes
  nothing, so the test for emptiness needs no branch of its own.
\<close>

definition doc_metadata :: "RAGIngestion \<Rightarrow> string \<Rightarrow> string \<Rightarrow> pydict option \<Rightarrow> pydict" where
  "doc_metadata self topic created_at md =
     (let base = [''topic'' \<mapsto> PStr topic,
                  ''source'' \<mapsto> PStr ''research_report'',
                  ''created_at'' \<mapsto> PStr created_at,
                  ''collection'' \<mapsto> PStr (collection_name self)]
      in case md of None \<Rightarrow> base | Some m \<Rightarrow> base ++ m)"

text \<open>Line 104: \<^verbatim>\<open>[chunk.strip() for chunk in chunks if chunk.strip()]\<close>.\<close>

definition strip_chunks :: "string list \<Rightarrow> string list" where
  "strip_chunks chunks = map strip (filter (\<lambda>chunk. strip chunk \<noteq> []) chunks)"

text \<open>
  Lines 116 to 123: one document per chunk, its metadata a copy of \<open>doc_metadata\<close> with
  \<^verbatim>\<open>chunk_id\<close> and \<^verbatim>\<open>total_chunks\<close> set.
\<close>

definition make_documents :: "pydict \<Rightarrow> string list \<Rightarrow> document list" where
  "make_documents dm chunks =
     map (\<lambda>(i, chunk). \<lparr>page_content = chunk,
                         metadata = dm(''chunk_id'' \<mapsto> PInt (int i),
                                       ''total_chunks'' \<mapsto> PInt (int (length chunks)))\<rparr>)
         (enumerate 0 chunks)"

text \<open>
  \<^verbatim>\<open>add_report(self, report_content, topic, metadata, chunk_size, chunk_overlap)\<close>:
  the returned dictionary and the world after the call. Every exception raised inside the
  \<^verbatim>\<open>try\<close> block ends in the handler of line 149.
\<close>

definition add_report ::
  "'w externals \<Rightarrow> RAGIngestion \<Rightarrow> 'w \<Rightarrow> string \<Rightarrow> string \<Rightarrow> pydict option \<Rightarrow> int \<Rightarrow> int
     \<Rightarrow> pydict \<times> 'w" where
  "add_report E self w report_content topic md chunk_size chunk_overlap =
     (if report_content = [] \<or> length (strip report_content) < 100
      then (too_short_result report_content topic, w)
      else
        let (created_at, w1) = datetime_now_isoformat E w;
            dm = doc_metadata self topic created_at md
        in case split_text E chunk_size chunk_overlap report_content of
             Inl e \<Rightarrow> (exception_result e topic, w1)
           | Inr raw \<Rightarrow>
               let chunks = strip_chunks raw
               in if chunks = [] then (no_chunks_result topic, w1)
                  else
                    (case add_documents E w1 (rag_dir self) (collection_name self)
                            (make_documents dm chunks) of
                       (Some e, w2) \<Rightarrow> (exception_result e topic, w2)
                     | (None, w2) \<Rightarrow> (success_result self (length chunks) topic, w2)))"

section \<open>RAGIngestion.add_multiple_reports\<close>

text \<open>
  A report of the batch is a dictionary read at the keys \<^verbatim>\<open>content\<close>, \<^verbatim>\<open>topic\<close> and
  \<^verbatim>\<open>metadata\<close>; a field is \<open>None\<close> when the dictionary has no such key.
\<close>

record report =
  r_content :: "string option"
  r_topic :: "string option"
  r_metadata :: "pydict option"






section \<open>RAGIngestion.verify_ingestion\<close>

text \<open>
  \<^verbatim>\<open>verify_ingestion(self, topic, query)\<close>, lines 201 to 227. \<^verbatim>\<open>query or topic\<close> is the
  topic when the query is \<open>None\<close> or empty. \<^verbatim>\<open>doc.metadata.get("topic") == topic\<close> is false
  for a document without the key.
\<close>

definition topic_docs_of :: "string \<Rightarrow> document list \<Rightarrow> document list" where
  "topic_docs_of topic docs =
     filter (\<lambda>doc. case metadata doc ''topic'' of None \<Rightarrow> False
                                                  | Some v \<Rightarrow> py_eq v (PStr topic)) docs"

definition verify_ingestion ::
  "'w externals \<Rightarrow> RAGIngestion \<Rightarrow> 'w \<Rightarrow> string \<Rightarrow> string option \<Rightarrow> pydict" where
  "verify_ingestion E self w topic query =
     (let search_query = (case query of None \<Rightarrow> topic
                                      | Some q \<Rightarrow> if q = [] then topic else q)
      in case retriever_invoke E w (rag_dir self) (collection_name self) 3 search_query of
           Inl e \<Rightarrow> [''found'' \<mapsto> PBool False, ''error'' \<mapsto> PStr e]
         | Inr docs \<Rightarrow>
             let topic_docs = topic_docs_of topic docs
             in [''found'' \<mapsto> PBool (length topic_docs > 0),
                 ''chunks_found'' \<mapsto> PInt (int (length topic_docs)),
                 ''total_results'' \<mapsto> PInt (int (length docs)),
                 ''sample_content'' \<mapsto>
                    (case topic_docs of [] \<Rightarrow> PNone
                                      | doc # _ \<Rightarrow> PStr (take 200 (page_content doc)))])"

section \<open>RAGIngestion.list_ingested_reports\<close>

text \<open>
  The dictionary \<^verbatim>\<open>topics\<close> of lines 249 to 257 keeps its insertion order, which
  \<^verbatim>\<open>list(topics.values())\<close> returns: an association list, a key looked up with Python's
  equality.
\<close>

definition topic_entry :: "pyval \<Rightarrow> document \<Rightarrow> pydict" where
  "topic_entry topic doc =
     [''topic'' \<mapsto> topic,
      ''created_at'' \<mapsto> (case metadata doc ''created_at'' of None \<Rightarrow> PNone | Some v \<Rightarrow> v),
      ''chunks'' \<mapsto> (case metadata doc ''total_chunks'' of None \<Rightarrow> PInt 1 | Some v \<Rightarrow> v)]"

fun unique_topics :: "(pyval \<times> pydict) list \<Rightarrow> document list \<Rightarrow> (pyval \<times> pydict) list" where
  "unique_topics topics [] = topics"
| "unique_topics topics (doc # docs) =
     (case metadata doc ''topic'' of
        None \<Rightarrow> unique_topics topics docs
      | Some topic \<Rightarrow>
          if truthy topic \<and> \<not> list_ex (\<lambda>(k, _). py_eq k topic) topics
          then unique_topics (topics @ [(topic, topic_entry topic doc)]) docs
          else unique_topics topics docs)"

definition list_ingested_reports :: "'w externals \<Rightarrow> RAGIngestion \<Rightarrow> 'w \<Rightarrow> pydict list" where
  "list_ingested_reports E self w =
     (case retriever_invoke E w (rag_dir self) (collection_name self) 100 ''research'' of
        Inl e \<Rightarrow> []
      | Inr docs \<Rightarrow> map snd (unique_topics [] docs))"

section \<open>An in-memory store for running the methods\<close>

text \<open>
  To evaluate the methods on concrete inputs, the services are instantiated by a store
  held in memory: the world is the list of the documents of the collection, oldest first.
  The clock shows a fixed time, the splitter cuts at line breaks, a write appends the
  documents, and a query returns the first \<open>k\<close> documents, those whose text is the query
  itself before all others (identical texts have identical embeddings, hence distance
  zero). A second instance stands for a store that cannot be reached: both of its
  operations raise.
\<close>

fun split_lines :: "string \<Rightarrow> string list" where
  "split_lines [] = [[]]"
| "split_lines (c # cs) =
     (if c = CHR 0x0A then [] # split_lines cs
      else (case split_lines cs of [] \<Rightarrow> [[c]] | l # ls \<Rightarrow> (c # l) # ls))"

definition nearest :: "document list \<Rightarrow> nat \<Rightarrow> string \<Rightarrow> document list" where
  "nearest w k q =
     take k (filter (\<lambda>d. page_content d = q) w @ filter (\<lambda>d. page_content d \<noteq> q) w)"

definition memory_store :: "document list externals" where
  "memory_store =
     \<lparr>datetime_now_isoformat = (\<lambda>w. (''2025-01-01T00:00:00'', w)),
      split_text = (\<lambda>chunk_size chunk_overlap s. Inr (split_lines s)),
      add_documents = (\<lambda>w dir coll docs. (None, w @ docs)),
      retriever_invoke = (\<lambda>w dir coll k q. Inr (nearest w k q))\<rparr>"

definition unreachable_store :: "document list externals" where
  "unreachable_store =
     \<lparr>datetime_now_isoformat = (\<lambda>w. (''2025-01-01T00:00:00'', w)),
      split_text = (\<lambda>chunk_size chunk_overlap s. Inr (split_lines s)),
      add_documents = (\<lambda>w dir coll docs. (Some ''store unreachable'', w)),
      retriever_invoke = (\<lambda>w dir coll k q. Inl ''store unreachable'')\<rparr>"

definition rag :: RAGIngestion where
  "rag = \<lparr>rag_dir = ''rag_db'', collection_name = ''research_reports''\<rparr>"

text \<open>
  A report of two paragraphs of 60 characters each, 121 characters in all.
\<close>

definition two_paragraphs :: string where
  "two_paragraphs = replicate 60 (CHR ''a'') @ [CHR 0x0A] @ replicate 60 (CHR ''b'')"

text \<open>
  A note of 99 characters between two runs of 30 spaces: 159 characters, 99 once trimmed.
\<close>

definition padded_note :: string where
  "padded_note = replicate 30 (CHR '' '') @ replicate 99 (CHR ''x'') @ replicate 30 (CHR '' '')"

text \<open>
  A chunk stored under the topic \<^verbatim>\<open>lunar\<close> whose text is the word \<^verbatim>\<open>solar\<close>, and a
  collection that holds three of them.
\<close>

definition lunar_chunk :: document where
  "lunar_chunk = \<lparr>page_content = ''solar'', metadata = [''topic'' \<mapsto> PStr ''lunar'']\<rparr>"

definition three_lunar :: "document list" where
  "three_lunar = [lunar_chunk, lunar_chunk, lunar_chunk]"





section \<open>What a successful add_report has done\<close>

text \<open>
  A call that returns \<^verbatim>\<open>success = True\<close> has passed the length check, has got chunks from
  the splitter, and has handed the documents built from them to the store, which raised
  nothing.
\<close>

lemma add_report_success_cases:
  assumes run: "add_report E self w report_content topic md chunk_size chunk_overlap = (res, w')"
    and ok: "res ''success'' = Some (PBool True)"
    and now: "datetime_now_isoformat E w = (created_at, w1)"
  shows "\<exists>raw. split_text E chunk_size chunk_overlap report_content = Inr raw
           \<and> strip_chunks raw \<noteq> []
           \<and> add_documents E w1 (rag_dir self) (collection_name self)
                (make_documents (doc_metadata self topic created_at md) (strip_chunks raw)) = (None, w')
           \<and> res = success_result self (length (strip_chunks raw)) topic
           \<and> 100 \<le> length (strip report_content)"
  using run ok now
  by (auto simp: add_report_def too_short_result_def exception_result_def no_chunks_result_def
      Let_def split: if_splits sum.splits prod.splits option.splits)

lemma length_make_documents: "length (make_documents dm chunks) = length chunks"
  by (simp add: make_documents_def)

lemma page_content_make_documents: "map page_content (make_documents dm chunks) = chunks"
  by (simp add: make_documents_def enumerate_eq_zip map_zip_map2 comp_def split_def)

lemma nth_make_documents:
  "i < length chunks \<Longrightarrow>
     make_documents dm chunks ! i =
       \<lparr>page_content = chunks ! i,
        metadata = dm(''chunk_id'' \<mapsto> PInt (int i),
                      ''total_chunks'' \<mapsto> PInt (int (length chunks)))\<rparr>"
  by (simp add: make_documents_def nth_enumerate_eq)

lemma chunk_id_make_documents:
  "map (\<lambda>d. metadata d ''chunk_id'') (make_documents dm chunks) =
     map (\<lambda>i. Some (PInt (int i))) [0..<length chunks]"
  by (rule nth_equalityI) (simp_all add: length_make_documents nth_make_documents)

lemma in_set_make_documents:
  assumes "d \<in> set (make_documents dm chunks)"
  obtains i where "i < length chunks"
    and "d = \<lparr>page_content = chunks ! i,
               metadata = dm(''chunk_id'' \<mapsto> PInt (int i),
                             ''total_chunks'' \<mapsto> PInt (int (length chunks)))\<rparr>"
proof -
  from assms obtain i where "i < length (make_documents dm chunks)"
    and "make_documents dm chunks ! i = d"
    by (auto simp: in_set_conv_nth)
  then show thesis
    using that [of i] by (simp add: length_make_documents nth_make_documents)
qed

lemma total_chunks_make_documents:
  "d \<in> set (make_documents dm chunks) \<Longrightarrow>
     metadata d ''total_chunks'' = Some (PInt (int (length chunks)))"
  by (erule in_set_make_documents) simp

lemma other_key_make_documents:
  assumes "d \<in> set (make_documents dm chunks)"
    and "k \<noteq> ''chunk_id''" and "k \<noteq> ''total_chunks''"
  shows "metadata d k = dm k"
  using assms by (elim in_set_make_documents) simp


text \<open>A key of the merged metadata: the caller's value where the caller gives one.\<close>

lemma doc_metadata_key:
  "doc_metadata self topic created_at md k =
     (case Option.bind md (\<lambda>m. m k) of
        Some v \<Rightarrow> Some v
      | None \<Rightarrow> [''topic'' \<mapsto> PStr topic, ''source'' \<mapsto> PStr ''research_report'',
                 ''created_at'' \<mapsto> PStr created_at,
                 ''collection'' \<mapsto> PStr (collection_name self)] k)"
  by (cases md) (auto simp: doc_metadata_def map_add_def split: option.splits)

text \<open>
  The topic filter of \<^verbatim>\<open>verify_ingestion\<close> keeps the documents whose \<^verbatim>\<open>topic\<close> is the
  string asked for: no other value equals a string.
\<close>

lemma topic_docs_of_eq:
  "topic_docs_of topic docs = filter (\<lambda>d. metadata d ''topic'' = Some (PStr topic)) docs"
proof -
  have "py_eq v (PStr topic) = (v = PStr topic)" for v
    by (cases v) simp_all
  then show ?thesis
    unfolding topic_docs_of_def
    by (intro filter_cong refl) (simp split: option.splits)
qed

text \<open>The in-memory query returns the whole collection when it is small and no text is the query.\<close>

lemma nearest_no_match:
  assumes "\<forall>d \<in> set w. page_content d \<noteq> q" and "length w \<le> k"
  shows "nearest w k q = w"
proof -
  from assms(1) have "filter (\<lambda>d. page_content d = q) w = []"
    and "filter (\<lambda>d. page_content d \<noteq> q) w = w"
    by (simp_all add: filter_empty_conv)
  with assms(2) show ?thesis
    by (simp add: nearest_def)
qed

section \<open>Chunk numbering\<close>

text \<open>
  C3. A successful \<^verbatim>\<open>add_report\<close> hands to the store one document per chunk, in chunking
  order; their \<^verbatim>\<open>chunk_id\<close> values are 0, 1, ..., n - 1 in that order, every one of them
  carries \<^verbatim>\<open>total_chunks\<close> = n, and the result reports \<^verbatim>\<open>chunks_added\<close> = n.
\<close>

theorem add_report_chunk_ids:
  assumes run: "add_report E self w report_content topic md chunk_size chunk_overlap = (res, w')"
    and ok: "res ''success'' = Some (PBool True)"
    and now: "datetime_now_isoformat E w = (created_at, w1)"
  shows "\<exists>raw documents.
           split_text E chunk_size chunk_overlap report_content = Inr raw
         \<and> documents = make_documents (doc_metadata self topic created_at md) (strip_chunks raw)
         \<and> add_documents E w1 (rag_dir self) (collection_name self) documents = (None, w')
         \<and> map page_content documents = strip_chunks raw
         \<and> res ''chunks_added'' = Some (PInt (int (length documents)))
         \<and> map (\<lambda>d. metadata d ''chunk_id'') documents =
               map (\<lambda>i. Some (PInt (int i))) [0..<length documents]
         \<and> (\<forall>d \<in> set documents.
               metadata d ''total_chunks'' = Some (PInt (int (length documents))))"
proof -
  from add_report_success_cases [OF run ok now]
  obtain raw where raw: "split_text E chunk_size chunk_overlap report_content = Inr raw"
    and written: "add_documents E w1 (rag_dir self) (collection_name self)
        (make_documents (doc_metadata self topic created_at md) (strip_chunks raw)) = (None, w')"
    and res: "res = success_result self (length (strip_chunks raw)) topic"
    by blast
  let ?docs = "make_documents (doc_metadata self topic created_at md) (strip_chunks raw)"
  have "res ''chunks_added'' = Some (PInt (int (length ?docs)))"
    by (simp add: res success_result_def length_make_documents)
  moreover have "\<forall>d \<in> set ?docs. metadata d ''total_chunks'' = Some (PInt (int (length ?docs)))"
    by (simp add: total_chunks_make_documents length_make_documents)
  ultimately show ?thesis
    using raw written
    by (simp add: page_content_make_documents chunk_id_make_documents length_make_documents)
qed


text \<open>The two-paragraph report on the in-memory store: two chunks, numbered 0 and 1.\<close>

theorem add_report_chunk_ids_witness:
  "fst (add_report memory_store rag [] two_paragraphs ''solar'' None 1000 200) ''chunks_added''
      = Some (PInt 2)
   \<and> map (\<lambda>d. metadata d ''chunk_id'')
        (snd (add_report memory_store rag [] two_paragraphs ''solar'' None 1000 200))
      = [Some (PInt 0), Some (PInt 1)]
   \<and> map (\<lambda>d. metadata d ''total_chunks'')
        (snd (add_report memory_store rag [] two_paragraphs ''solar'' None 1000 200))
      = [Some (PInt 2), Some (PInt 2)]"
proof -
  let ?run = "add_report memory_store rag [] two_paragraphs ''solar'' None 1000 200"
  have run: "?run = (fst ?run, snd ?run)" by simp
  have ok: "fst ?run ''success'' = Some (PBool True)" by code_simp
  have now: "datetime_now_isoformat memory_store [] = (''2025-01-01T00:00:00'', [])"
    by (simp add: memory_store_def)
  have n: "length (snd ?run) = 2" by code_simp
  from add_report_chunk_ids [OF run ok now]
  obtain documents where
    written: "add_documents memory_store [] (rag_dir rag) (collection_name rag) documents
                = (None, snd ?run)"
    and added: "fst ?run ''chunks_added'' = Some (PInt (int (length documents)))"
    and ids: "map (\<lambda>d. metadata d ''chunk_id'') documents =
               map (\<lambda>i. Some (PInt (int i))) [0..<length documents]"
    and total: "\<forall>d \<in> set documents.
               metadata d ''total_chunks'' = Some (PInt (int (length documents)))"
    by blast
  from written have docs: "documents = snd ?run"
    by (simp add: memory_store_def)
  from total have "map (\<lambda>d. metadata d ''total_chunks'') documents =
      replicate (length documents) (Some (PInt (int (length documents))))"
    by (simp add: map_replicate_const [symmetric] cong: map_cong)
  with added ids show ?thesis
    unfolding docs n by (simp add: upt_rec numeral_2_eq_2)
qed



section \<open>Rejection of short content\<close>

text \<open>
  C2. Content whose trimmed length is below 100 is rejected: \<^verbatim>\<open>add_report\<close> returns
  \<^verbatim>\<open>success = False\<close> with the too-short error, and the world after the call is the world
  before it. The splitter and the store are not consulted: the call gives the same result
  and the same world with any other services \<open>E'\<close>.
\<close>

theorem add_report_too_short:
  assumes short: "length (strip report_content) < 100"
  shows "add_report E self w report_content topic md chunk_size chunk_overlap
           = (too_short_result report_content topic, w)
       \<and> too_short_result report_content topic ''success'' = Some (PBool False)
       \<and> too_short_result report_content topic ''error'' =
           Some (PStr ''Report content is too short or empty (minimum 100 characters required)'')
       \<and> add_report E' self w report_content topic md chunk_size chunk_overlap
           = add_report E self w report_content topic md chunk_size chunk_overlap"
  using short by (simp add: add_report_def too_short_result_def)


text \<open>
  The padded note is 159 characters long but only 99 once trimmed: it is rejected, by the
  store that cannot be reached as by the one in memory.
\<close>

theorem add_report_too_short_witness:
  "length padded_note = 159
   \<and> length (strip padded_note) < 100
   \<and> add_report unreachable_store rag [] padded_note ''notes'' None 1000 200
        = (too_short_result padded_note ''notes'', [])
   \<and> add_report memory_store rag [] padded_note ''notes'' None 1000 200
        = add_report unreachable_store rag [] padded_note ''notes'' None 1000 200"
proof -
  have len: "length padded_note = 159" by code_simp
  have short: "length (strip padded_note) < 100" by code_simp
  from add_report_too_short [OF short, of unreachable_store rag "[]" "''notes''" None 1000 200
      memory_store] len short
  show ?thesis by simp
qed


section \<open>The topic in the metadata of the chunks\<close>

text \<open>
  C1 as stated fails: \<^verbatim>\<open>doc_metadata.update(metadata)\<close> runs after the base metadata is
  built and replaces every key the caller gives, \<^verbatim>\<open>topic\<close> included. Ingesting the
  two-paragraph report under the topic \<^verbatim>\<open>solar\<close> with the caller's metadata
  \<^verbatim>\<open>{"topic": "lunar"}\<close> succeeds and stores both chunks with the topic \<^verbatim>\<open>lunar\<close>.
\<close>

theorem add_report_topic_override_counterexample:
  "fst (add_report memory_store rag [] two_paragraphs ''solar''
          (Some [''topic'' \<mapsto> PStr ''lunar'']) 1000 200) ''success'' = Some (PBool True)
   \<and> map (\<lambda>d. metadata d ''topic'')
        (snd (add_report memory_store rag [] two_paragraphs ''solar''
                (Some [''topic'' \<mapsto> PStr ''lunar'']) 1000 200))
      = [Some (PStr ''lunar''), Some (PStr ''lunar'')]"
  by code_simp


text \<open>
  C1, amended. In every document a successful \<^verbatim>\<open>add_report\<close> hands to the store, each of
  the four base fields \<^verbatim>\<open>topic\<close>, \<^verbatim>\<open>source\<close>, \<^verbatim>\<open>created_at\<close> and \<^verbatim>\<open>collection\<close> holds the
  caller's value when the caller's metadata has that key, and the default otherwise: the
  topic field equals the topic argument exactly when the caller gives no \<^verbatim>\<open>topic\<close> key
  (or gives that same value).
\<close>

theorem add_report_metadata_merge:
  assumes run: "add_report E self w report_content topic md chunk_size chunk_overlap = (res, w')"
    and ok: "res ''success'' = Some (PBool True)"
    and now: "datetime_now_isoformat E w = (created_at, w1)"
  shows "\<exists>raw documents.
           split_text E chunk_size chunk_overlap report_content = Inr raw
         \<and> documents = make_documents (doc_metadata self topic created_at md) (strip_chunks raw)
         \<and> add_documents E w1 (rag_dir self) (collection_name self) documents = (None, w')
         \<and> documents \<noteq> []
         \<and> (\<forall>d \<in> set documents.
               metadata d ''topic'' =
                 (case Option.bind md (\<lambda>m. m ''topic'') of
                    Some v \<Rightarrow> Some v | None \<Rightarrow> Some (PStr topic))
             \<and> metadata d ''source'' =
                 (case Option.bind md (\<lambda>m. m ''source'') of
                    Some v \<Rightarrow> Some v | None \<Rightarrow> Some (PStr ''research_report''))
             \<and> metadata d ''created_at'' =
                 (case Option.bind md (\<lambda>m. m ''created_at'') of
                    Some v \<Rightarrow> Some v | None \<Rightarrow> Some (PStr created_at))
             \<and> metadata d ''collection'' =
                 (case Option.bind md (\<lambda>m. m ''collection'') of
                    Some v \<Rightarrow> Some v | None \<Rightarrow> Some (PStr (collection_name self))))"
proof -
  from add_report_success_cases [OF run ok now]
  obtain raw where raw: "split_text E chunk_size chunk_overlap report_content = Inr raw"
    and nonempty: "strip_chunks raw \<noteq> []"
    and written: "add_documents E w1 (rag_dir self) (collection_name self)
        (make_documents (doc_metadata self topic created_at md) (strip_chunks raw)) = (None, w')"
    by blast
  let ?dm = "doc_metadata self topic created_at md"
  let ?docs = "make_documents ?dm (strip_chunks raw)"
  have "?docs \<noteq> []"
    using nonempty length_make_documents [of ?dm "strip_chunks raw"] by auto
  moreover have "metadata d k = ?dm k"
    if "d \<in> set ?docs" and "k \<in> {''topic'', ''source'', ''created_at'', ''collection''}" for d k
    using that by (intro other_key_make_documents) auto
  ultimately show ?thesis
    using raw written by (simp add: doc_metadata_key split: option.splits)
qed


text \<open>
  With the caller's metadata \<^verbatim>\<open>{"source": "manual"}\<close> both chunks keep the topic of the
  call and carry the caller's source.
\<close>

theorem add_report_metadata_merge_witness:
  "map (\<lambda>d. metadata d ''topic'')
        (snd (add_report memory_store rag [] two_paragraphs ''solar''
                (Some [''source'' \<mapsto> PStr ''manual'']) 1000 200))
      = [Some (PStr ''solar''), Some (PStr ''solar'')]
   \<and> map (\<lambda>d. metadata d ''source'')
        (snd (add_report memory_store rag [] two_paragraphs ''solar''
                (Some [''source'' \<mapsto> PStr ''manual'']) 1000 200))
      = [Some (PStr ''manual''), Some (PStr ''manual'')]"
proof -
  let ?md = "Some [''source'' \<mapsto> PStr ''manual'']"
  let ?run = "add_report memory_store rag [] two_paragraphs ''solar'' ?md 1000 200"
  have run: "?run = (fst ?run, snd ?run)" by simp
  have ok: "fst ?run ''success'' = Some (PBool True)" by code_simp
  have now: "datetime_now_isoformat memory_store [] = (''2025-01-01T00:00:00'', [])"
    by (simp add: memory_store_def)
  have n: "length (snd ?run) = 2" by code_simp
  from add_report_metadata_merge [OF run ok now]
  obtain documents where
    written: "add_documents memory_store [] (rag_dir rag) (collection_name rag) documents
                = (None, snd ?run)"
    and keys: "\<forall>d \<in> set documents.
        metadata d ''topic'' = Some (PStr ''solar'')
      \<and> metadata d ''source'' = Some (PStr ''manual'')"
    by auto
  from written have docs: "documents = snd ?run"
    by (simp add: memory_store_def)
  from keys have "map (\<lambda>d. metadata d ''topic'') documents =
      replicate (length documents) (Some (PStr ''solar''))"
    and "map (\<lambda>d. metadata d ''source'') documents =
      replicate (length documents) (Some (PStr ''manual''))"
    by (simp_all add: map_replicate_const [symmetric] cong: map_cong)
  then show ?thesis
    unfolding docs n by (simp add: numeral_2_eq_2)
qed



section \<open>Failures of the store during verification and listing\<close>

text \<open>
  C9 as stated fails for \<^verbatim>\<open>list_ingested_reports\<close>: its handler (lines 261 to 263) logs
  the exception and returns the empty list, which is also what a query with no match
  returns. With a store that cannot be reached the caller gets \<^verbatim>\<open>[]\<close>, as with an empty
  collection.
\<close>

theorem list_ingested_reports_failure_counterexample:
  "retriever_invoke unreachable_store [] (rag_dir rag) (collection_name rag) 100 ''research''
      = Inl ''store unreachable''
   \<and> list_ingested_reports unreachable_store rag [] = []
   \<and> retriever_invoke memory_store [] (rag_dir rag) (collection_name rag) 100 ''research''
      = Inr []
   \<and> list_ingested_reports memory_store rag [] = []"
  by (simp add: list_ingested_reports_def unreachable_store_def memory_store_def nearest_def)

text \<open>
  C9, amended. When the query raises, \<^verbatim>\<open>verify_ingestion\<close> does not raise either: it returns
  \<^verbatim>\<open>{"found": False, "error": str(e)}\<close>, so the failure reaches the caller as the
  \<^verbatim>\<open>error\<close> entry of the result; a query without any match returns \<^verbatim>\<open>found = False\<close> with
  both counts 0, a null sample and no \<^verbatim>\<open>error\<close> entry. \<^verbatim>\<open>list_ingested_reports\<close> returns
  the empty list in both cases: a failure of the store is not reported by it.
\<close>

theorem retrieval_failure_and_no_match:
  fixes E :: "'w externals"
  assumes q: "search_query = (case query of None \<Rightarrow> topic
                                | Some q \<Rightarrow> if q = [] then topic else q)"
  shows "(retriever_invoke E w (rag_dir self) (collection_name self) 3 search_query = Inl e \<longrightarrow>
            verify_ingestion E self w topic query
              = [''found'' \<mapsto> PBool False, ''error'' \<mapsto> PStr e])
       \<and> (retriever_invoke E w (rag_dir self) (collection_name self) 3 search_query = Inr [] \<longrightarrow>
            verify_ingestion E self w topic query
              = [''found'' \<mapsto> PBool False, ''chunks_found'' \<mapsto> PInt 0,
                 ''total_results'' \<mapsto> PInt 0, ''sample_content'' \<mapsto> PNone]
          \<and> verify_ingestion E self w topic query ''error'' = None)
       \<and> (retriever_invoke E w (rag_dir self) (collection_name self) 100 ''research'' = Inl e \<longrightarrow>
            list_ingested_reports E self w = [])
       \<and> (retriever_invoke E w (rag_dir self) (collection_name self) 100 ''research'' = Inr [] \<longrightarrow>
            list_ingested_reports E self w = [])"
  by (simp add: q verify_ingestion_def list_ingested_reports_def topic_docs_of_def)

text \<open>Both stores on an empty collection, the one that raises and the one that finds nothing.\<close>

theorem retrieval_failure_and_no_match_witness:
  "verify_ingestion unreachable_store rag [] ''solar'' None
      = [''found'' \<mapsto> PBool False, ''error'' \<mapsto> PStr ''store unreachable'']
   \<and> verify_ingestion memory_store rag [] ''solar'' None
      = [''found'' \<mapsto> PBool False, ''chunks_found'' \<mapsto> PInt 0,
         ''total_results'' \<mapsto> PInt 0, ''sample_content'' \<mapsto> PNone]
   \<and> verify_ingestion memory_store rag [] ''solar'' None ''error'' = None
   \<and> list_ingested_reports unreachable_store rag [] = []
   \<and> list_ingested_reports memory_store rag [] = []"
proof -
  have q: "''solar'' = (case None :: string option of None \<Rightarrow> ''solar''
                         | Some q \<Rightarrow> if q = [] then ''solar'' else q)"
    by simp
  have down: "retriever_invoke unreachable_store [] (rag_dir rag) (collection_name rag) k s
                = Inl ''store unreachable''" for k s
    by (simp add: unreachable_store_def)
  have none: "retriever_invoke memory_store [] (rag_dir rag) (collection_name rag) k s = Inr []"
    for k s
    by (simp add: memory_store_def nearest_def)
  from retrieval_failure_and_no_match [OF q, of unreachable_store "[]" rag "''store unreachable''"]
    retrieval_failure_and_no_match [OF q, of memory_store "[]" rag]
    down none
  show ?thesis by simp
qed

section \<open>The result of verify_ingestion\<close>

text \<open>
  C10 as stated fails when the store raises: the handler of lines 225 to 227 returns a
  dictionary with \<^verbatim>\<open>found\<close> and \<^verbatim>\<open>error\<close> only, without \<^verbatim>\<open>chunks_found\<close>,
  \<^verbatim>\<open>total_results\<close> and \<^verbatim>\<open>sample_content\<close>.
\<close>

theorem verify_ingestion_failure_counterexample:
  "verify_ingestion unreachable_store rag [] ''solar'' None ''chunks_found'' = None
   \<and> verify_ingestion unreachable_store rag [] ''solar'' None ''total_results'' = None
   \<and> verify_ingestion unreachable_store rag [] ''solar'' None ''sample_content'' = None
   \<and> verify_ingestion unreachable_store rag [] ''solar'' None ''found'' = Some (PBool False)"
  by (simp add: verify_ingestion_def unreachable_store_def)

text \<open>
  C10, amended. Whenever the query of \<^verbatim>\<open>verify_ingestion\<close> returns (and the retriever
  honours \<^verbatim>\<open>k = 3\<close>), the result has exactly the four keys \<^verbatim>\<open>found\<close>, \<^verbatim>\<open>chunks_found\<close>,
  \<^verbatim>\<open>total_results\<close> and \<^verbatim>\<open>sample_content\<close>; \<^verbatim>\<open>chunks_found\<close> counts the returned documents
  whose topic is the one asked for, \<^verbatim>\<open>found\<close> holds exactly when that count is positive,
  \<^verbatim>\<open>chunks_found \<le> total_results \<le> 3\<close>, and \<^verbatim>\<open>sample_content\<close> is the first 200 characters
  of the first such document when there is one and \<^verbatim>\<open>None\<close> otherwise.
\<close>

theorem verify_ingestion_result:
  fixes E :: "'w externals"
  assumes q: "search_query = (case query of None \<Rightarrow> topic
                                | Some q \<Rightarrow> if q = [] then topic else q)"
    and docs: "retriever_invoke E w (rag_dir self) (collection_name self) 3 search_query = Inr docs"
    and k: "length docs \<le> 3"
    and matching: "topic_docs = filter (\<lambda>d. metadata d ''topic'' = Some (PStr topic)) docs"
    and res: "res = verify_ingestion E self w topic query"
  shows "dom res = {''found'', ''chunks_found'', ''total_results'', ''sample_content''}
       \<and> res ''found'' = Some (PBool (0 < length topic_docs))
       \<and> res ''chunks_found'' = Some (PInt (int (length topic_docs)))
       \<and> res ''total_results'' = Some (PInt (int (length docs)))
       \<and> length topic_docs \<le> length docs \<and> length docs \<le> 3
       \<and> res ''sample_content'' =
            Some (if 0 < length topic_docs then PStr (take 200 (page_content (hd topic_docs)))
                  else PNone)
       \<and> length (take 200 (page_content (hd topic_docs))) \<le> 200"
proof -
  have td: "topic_docs_of topic docs = topic_docs"
    by (simp add: matching topic_docs_of_eq)
  have sample: "(case topic_docs of [] \<Rightarrow> PNone | doc # _ \<Rightarrow> PStr (take 200 (page_content doc)))
      = (if 0 < length topic_docs then PStr (take 200 (page_content (hd topic_docs))) else PNone)"
    by (cases topic_docs) simp_all
  have r: "res = [''found'' \<mapsto> PBool (0 < length topic_docs),
                 ''chunks_found'' \<mapsto> PInt (int (length topic_docs)),
                 ''total_results'' \<mapsto> PInt (int (length docs)),
                 ''sample_content'' \<mapsto>
                    (if 0 < length topic_docs then PStr (take 200 (page_content (hd topic_docs)))
                     else PNone)]"
    using docs sample by (simp add: res verify_ingestion_def q [symmetric] td Let_def)
  have "length topic_docs \<le> length docs"
    by (simp add: matching)
  moreover have "dom res = {''found'', ''chunks_found'', ''total_results'', ''sample_content''}"
    unfolding r by auto
  ultimately show ?thesis
    using k unfolding r by simp
qed

text \<open>Asking for the topic \<^verbatim>\<open>lunar\<close> in the collection of three lunar chunks.\<close>

theorem verify_ingestion_result_witness:
  "verify_ingestion memory_store rag three_lunar ''lunar'' None ''found'' = Some (PBool True)
   \<and> verify_ingestion memory_store rag three_lunar ''lunar'' None ''chunks_found'' = Some (PInt 3)
   \<and> verify_ingestion memory_store rag three_lunar ''lunar'' None ''total_results'' = Some (PInt 3)
   \<and> verify_ingestion memory_store rag three_lunar ''lunar'' None ''sample_content''
        = Some (PStr ''solar'')"
proof -
  have q: "''lunar'' = (case None :: string option of None \<Rightarrow> ''lunar''
                         | Some q \<Rightarrow> if q = [] then ''lunar'' else q)"
    by simp
  have docs: "retriever_invoke memory_store three_lunar (rag_dir rag) (collection_name rag) 3 ''lunar''
                = Inr three_lunar"
    by (simp add: memory_store_def nearest_def three_lunar_def lunar_chunk_def)
  have k: "length three_lunar \<le> 3"
    by (simp add: three_lunar_def)
  have matching: "three_lunar = filter (\<lambda>d. metadata d ''topic'' = Some (PStr ''lunar'')) three_lunar"
    by (simp add: three_lunar_def lunar_chunk_def)
  from verify_ingestion_result [OF q docs k matching refl]
  show ?thesis
    by (simp add: three_lunar_def lunar_chunk_def)
qed

section \<open>Ingestion followed by verification\<close>

text \<open>
  C7 as stated fails: \<^verbatim>\<open>verify_ingestion\<close> looks only at the three documents the store
  ranks nearest to the query, whatever their topic. In a collection that already holds
  three chunks of the topic \<^verbatim>\<open>lunar\<close> whose text is the very query \<^verbatim>\<open>solar\<close>, the
  two-paragraph report is ingested under the topic \<^verbatim>\<open>solar\<close> with success, and the
  verification that follows reports \<^verbatim>\<open>found = False\<close> and no chunk.
\<close>

theorem add_report_then_verify_counterexample:
  "100 \<le> length (strip two_paragraphs)
   \<and> fst (add_report memory_store rag three_lunar two_paragraphs ''solar'' None 1000 200) ''success''
        = Some (PBool True)
   \<and> verify_ingestion memory_store rag
        (snd (add_report memory_store rag three_lunar two_paragraphs ''solar'' None 1000 200))
        ''solar'' None ''found'' = Some (PBool False)
   \<and> verify_ingestion memory_store rag
        (snd (add_report memory_store rag three_lunar two_paragraphs ''solar'' None 1000 200))
        ''solar'' None ''chunks_found'' = Some (PInt 0)"
  by code_simp

text \<open>
  C7, amended. After a successful \<^verbatim>\<open>add_report(content, topic)\<close> every chunk written
  carries the topic of the call, and \<^verbatim>\<open>verify_ingestion(topic)\<close> on the world it leaves
  reports \<^verbatim>\<open>found\<close> exactly when one of the at most three documents the store returns for
  the query carries that topic; in particular \<^verbatim>\<open>found = True\<close> and \<^verbatim>\<open>chunks_found \<ge> 1\<close>
  whenever one of the chunks just written is among them.
\<close>

theorem add_report_then_verify:
  assumes run: "add_report E self w report_content topic None chunk_size chunk_overlap = (res, w')"
    and ok: "res ''success'' = Some (PBool True)"
    and now: "datetime_now_isoformat E w = (created_at, w1)"
    and hits: "retriever_invoke E w' (rag_dir self) (collection_name self) 3 topic = Inr hits"
    and verified: "verified = verify_ingestion E self w' topic None"
  shows "\<exists>raw documents.
           split_text E chunk_size chunk_overlap report_content = Inr raw
         \<and> documents = make_documents (doc_metadata self topic created_at None) (strip_chunks raw)
         \<and> add_documents E w1 (rag_dir self) (collection_name self) documents = (None, w')
         \<and> documents \<noteq> []
         \<and> (\<forall>d \<in> set documents. metadata d ''topic'' = Some (PStr topic))
         \<and> verified ''found'' =
              Some (PBool (\<exists>d \<in> set hits. metadata d ''topic'' = Some (PStr topic)))
         \<and> verified ''chunks_found'' =
              Some (PInt (int (length (filter (\<lambda>d. metadata d ''topic'' = Some (PStr topic)) hits))))
         \<and> (set hits \<inter> set documents \<noteq> {} \<longrightarrow>
              verified ''found'' = Some (PBool True)
            \<and> 1 \<le> length (filter (\<lambda>d. metadata d ''topic'' = Some (PStr topic)) hits))"
proof -
  from add_report_success_cases [OF run ok now]
  obtain raw where raw: "split_text E chunk_size chunk_overlap report_content = Inr raw"
    and nonempty: "strip_chunks raw \<noteq> []"
    and written: "add_documents E w1 (rag_dir self) (collection_name self)
        (make_documents (doc_metadata self topic created_at None) (strip_chunks raw)) = (None, w')"
    by blast
  let ?dm = "doc_metadata self topic created_at None"
  let ?docs = "make_documents ?dm (strip_chunks raw)"
  let ?match = "\<lambda>d. metadata d ''topic'' = Some (PStr topic)"
  have ne: "?docs \<noteq> []"
    using nonempty length_make_documents [of ?dm "strip_chunks raw"] by auto
  have topic: "?match d" if "d \<in> set ?docs" for d
    using other_key_make_documents [OF that, of "''topic''"] by (simp add: doc_metadata_def)
  have found: "verified ''found'' = Some (PBool (\<exists>d \<in> set hits. ?match d))"
    using hits
    by (auto simp: verified verify_ingestion_def topic_docs_of_eq Let_def filter_empty_conv)
  have count: "verified ''chunks_found'' = Some (PInt (int (length (filter ?match hits))))"
    using hits by (simp add: verified verify_ingestion_def topic_docs_of_eq Let_def)
  have "\<exists>d \<in> set hits. ?match d" and "1 \<le> length (filter ?match hits)"
    if "set hits \<inter> set ?docs \<noteq> {}"
  proof -
    from that obtain d where d: "d \<in> set hits" "d \<in> set ?docs" by auto
    with topic show "\<exists>d \<in> set hits. ?match d" by blast
    then have "filter ?match hits \<noteq> []" by (simp add: filter_empty_conv)
    then show "1 \<le> length (filter ?match hits)"
      by (cases "filter ?match hits") simp_all
  qed
  with found count ne topic raw written show ?thesis
    by simp
qed

text \<open>On an empty collection the two chunks of the report are the whole answer of the store.\<close>

theorem add_report_then_verify_witness:
  "fst (add_report memory_store rag [] two_paragraphs ''solar'' None 1000 200) ''success''
      = Some (PBool True)
   \<and> verify_ingestion memory_store rag
        (snd (add_report memory_store rag [] two_paragraphs ''solar'' None 1000 200))
        ''solar'' None ''found'' = Some (PBool True)"
proof -
  let ?run = "add_report memory_store rag [] two_paragraphs ''solar'' None 1000 200"
  have run: "?run = (fst ?run, snd ?run)" by simp
  have ok: "fst ?run ''success'' = Some (PBool True)" by code_simp
  have now: "datetime_now_isoformat memory_store [] = (''2025-01-01T00:00:00'', [])"
    by (simp add: memory_store_def)
  have n: "length (snd ?run) \<le> 3" by code_simp
  have texts: "list_all (\<lambda>d. page_content d \<noteq> ''solar'') (snd ?run)" by code_simp
  have hits: "retriever_invoke memory_store (snd ?run) (rag_dir rag) (collection_name rag) 3 ''solar''
                = Inr (snd ?run)"
  proof -
    have "retriever_invoke memory_store v (rag_dir rag) (collection_name rag) 3 ''solar''
            = Inr (nearest v 3 ''solar'')" for v
      by (simp add: memory_store_def)
    moreover from texts n have "nearest (snd ?run) 3 ''solar'' = snd ?run"
      by (intro nearest_no_match) (simp_all add: list_all_iff)
    ultimately show ?thesis by simp
  qed
  from add_report_then_verify [OF run ok now hits refl]
  obtain documents where
    written: "add_documents memory_store [] (rag_dir rag) (collection_name rag) documents
                = (None, snd ?run)"
    and ne: "documents \<noteq> []"
    and found: "set (snd ?run) \<inter> set documents \<noteq> {} \<longrightarrow>
        verify_ingestion memory_store rag (snd ?run) ''solar'' None ''found'' = Some (PBool True)"
    by blast
  from written have "documents = snd ?run"
    by (simp add: memory_store_def)
  with ne found ok show ?thesis
    by simp
qed


section \<open>The batch loop\<close>
















end
